theory Spec2Isabelle
  imports Main "HOL-Library.Multiset"
begin

section \<open>The task list screen of \<^verbatim>\<open>src/app/(tabs)/index.tsx\<close>\<close>

text \<open>
  The screen is one React component. Its state is a set of \<^verbatim>\<open>useState\<close> cells; every
  handler reads the cells of the current render and writes new values with the setters.
  A handler is modelled as a function from the state before the call to the state after
  it. The handlers return nothing (\<^verbatim>\<open>void\<close>), so the state after the call is all a
  caller can observe.

  Strings are lists of code units; the model covers code units below 256, one
  \<^typ>\<open>char\<close> each. A \<^verbatim>\<open>Date\<close> is its time value, the milliseconds since the epoch, as
  an \<^typ>\<open>int\<close>; every \<^verbatim>\<open>Date\<close> of the screen comes from \<^verbatim>\<open>new Date()\<close> and is valid.
\<close>

subsection \<open>Data model\<close>

type_synonym date = int

datatype priority_level = Low | Medium | High

text \<open>The interface \<^verbatim>\<open>Task\<close> (lines 16-24); the field \<^verbatim>\<open>value\<close> is \<open>value_t\<close> here.\<close>

record task =
  key :: string
  value_t :: string
  completed :: bool
  createdAt :: date
  priority :: priority_level
  dueDate :: "date option"
  category :: "string option"

text \<open>The completion filter, \<^verbatim>\<open>'all' | 'active' | 'Task completed'\<close> (line 34).\<close>

datatype completion_filter = All | Active | TaskCompleted

text \<open>
  The state cells of lines 27-39 that the handlers and the derived list read or write.
  The cells that share a name with a field of \<^typ>\<open>task\<close> or with a list function carry
  the suffix \<open>_st\<close>.
\<close>

record app_state =
  task_st :: string
  taskList :: "task list"
  isEditing :: bool
  currentTaskKey :: "string option"
  priority_st :: priority_level
  searchQuery :: string
  filter_st :: completion_filter
  dueDate_st :: "date option"
  category_st :: string
  showCategoryInput :: bool
  selectedCategoryFilter :: string

definition initial_state :: app_state where
  "initial_state =
     \<lparr>task_st = [], taskList = [], isEditing = False, currentTaskKey = None,
      priority_st = Medium, searchQuery = [], filter_st = All, dueDate_st = None,
      category_st = [], showCategoryInput = False, selectedCategoryFilter = ''all''\<rparr>"

subsection \<open>String functions of the platform\<close>

text \<open>
  \<^verbatim>\<open>String.prototype.trim\<close> removes white space and line terminators from both ends.
  Below 256 these are TAB, LF, VT, FF, CR, SP and NBSP.
\<close>

definition isWhiteSpace :: "char \<Rightarrow> bool" where
  "isWhiteSpace c = (of_char c \<in> {9, 10, 11, 12, 13, 32, 160 :: nat})"

definition trim :: "string \<Rightarrow> string" where
  "trim s = rev (dropWhile isWhiteSpace (rev (dropWhile isWhiteSpace s)))"

text \<open>\<^verbatim>\<open>s || undefined\<close>: the empty string is falsy.\<close>

definition orUndefined :: "string \<Rightarrow> string option" where
  "orUndefined s = (if s = [] then None else Some s)"

text \<open>\<^verbatim>\<open>c || d\<close> for an optional string \<open>c\<close>: \<^verbatim>\<open>undefined\<close> and \<^verbatim>\<open>''\<close> are falsy.\<close>

definition orElse :: "string option \<Rightarrow> string \<Rightarrow> string" where
  "orElse c d = (case c of None \<Rightarrow> d | Some x \<Rightarrow> if x = [] then d else x)"

definition lowerChar :: "char \<Rightarrow> char" where
  "lowerChar c =
     (let n = of_char c :: nat
      in if (65 \<le> n \<and> n \<le> 90) \<or> (192 \<le> n \<and> n \<le> 222 \<and> n \<noteq> 215)
         then char_of (n + 32) else c)"

definition toLowerCase :: "string \<Rightarrow> string" where
  "toLowerCase s = map lowerChar s"

fun startsWith :: "string \<Rightarrow> string \<Rightarrow> bool" where
  "startsWith s [] = True"
| "startsWith [] (q # qs) = False"
| "startsWith (c # cs) (q # qs) = (c = q \<and> startsWith cs qs)"

text \<open>\<^verbatim>\<open>s.includes(q)\<close>: \<open>q\<close> occurs in \<open>s\<close> as a contiguous run.\<close>

fun includes_str :: "string \<Rightarrow> string \<Rightarrow> bool" where
  "includes_str [] q = (q = [])"
| "includes_str (c # cs) q = (startsWith (c # cs) q \<or> includes_str cs q)"

text \<open>
  Modelled from the spec: \<^verbatim>\<open>String.prototype.localeCompare\<close> is a function of the
  JavaScript engine and not part of the repository. The spec describes the comparison of
  categories as case-sensitive lexicographic string order, so the model compares code
  units from the left and returns \<open>-1\<close>, \<open>0\<close> or \<open>1\<close>.
\<close>

fun localeCompare :: "string \<Rightarrow> string \<Rightarrow> int" where
  "localeCompare [] [] = 0"
| "localeCompare [] (b # bs) = - 1"
| "localeCompare (a # as) [] = 1"
| "localeCompare (a # as) (b # bs) =
     (if (of_char a :: nat) < of_char b then - 1
      else if (of_char b :: nat) < of_char a then 1
      else localeCompare as bs)"

subsection \<open>Sorting an array with a comparator\<close>

text \<open>
  \<^verbatim>\<open>Array.prototype.sort(cmp)\<close> is a stable sort: an element moves behind another only
  when \<open>cmp\<close> says it is greater. For a consistent comparator this fixes the result, and
  the model computes it by stable insertion from the right.
\<close>

fun insert_cmp :: "('a \<Rightarrow> 'a \<Rightarrow> int) \<Rightarrow> 'a \<Rightarrow> 'a list \<Rightarrow> 'a list" where
  "insert_cmp cmp x [] = [x]"
| "insert_cmp cmp x (y # ys) =
     (if cmp x y \<le> 0 then x # y # ys else y # insert_cmp cmp x ys)"

fun array_sort :: "('a \<Rightarrow> 'a \<Rightarrow> int) \<Rightarrow> 'a list \<Rightarrow> 'a list" where
  "array_sort cmp [] = []"
| "array_sort cmp (x # xs) = insert_cmp cmp x (array_sort cmp xs)"

subsection \<open>Handlers of the task list\<close>

text \<open>
  \<^verbatim>\<open>addTask\<close> (lines 45-63). \<open>rnd\<close> is the string \<^verbatim>\<open>Math.random().toString()\<close> and \<open>now\<close>
  the time value of \<^verbatim>\<open>new Date()\<close> at the call.
\<close>

definition addTask :: "string \<Rightarrow> date \<Rightarrow> app_state \<Rightarrow> app_state" where
  "addTask rnd now s =
     (if trim (task_st s) \<noteq> [] then
        s\<lparr>taskList := taskList s @
             [\<lparr>key = rnd, value_t = task_st s, completed = False, createdAt = now,
               priority = priority_st s, dueDate = dueDate_st s,
               category = orUndefined (trim (category_st s))\<rparr>],
          task_st := [], priority_st := Medium, dueDate_st := None, category_st := [],
          showCategoryInput := False\<rparr>
      else s)"

text \<open>\<^verbatim>\<open>editTask\<close> (lines 65-75).\<close>

definition editTask :: "string \<Rightarrow> app_state \<Rightarrow> app_state" where
  "editTask k s =
     (case find (\<lambda>t. key t = k) (taskList s) of
        None \<Rightarrow> s
      | Some taskToEdit \<Rightarrow>
          s\<lparr>task_st := value_t taskToEdit, priority_st := priority taskToEdit,
            dueDate_st := dueDate taskToEdit,
            category_st := orElse (category taskToEdit) [],
            isEditing := True, currentTaskKey := Some k\<rparr>)"

text \<open>
  \<^verbatim>\<open>updateTask\<close> (lines 77-100). The id is the cell \<^verbatim>\<open>currentTaskKey\<close>; \<^verbatim>\<open>null\<close> and
  the empty string are falsy and skip the body.
\<close>

definition updateTask :: "app_state \<Rightarrow> app_state" where
  "updateTask s =
     (case currentTaskKey s of
        None \<Rightarrow> s
      | Some k \<Rightarrow>
          if k = [] then s
          else
            s\<lparr>taskList :=
                 map (\<lambda>taskItem.
                        if key taskItem = k
                        then taskItem\<lparr>value_t := task_st s, priority := priority_st s,
                                      dueDate := dueDate_st s,
                                      category := orUndefined (trim (category_st s))\<rparr>
                        else taskItem)
                     (taskList s),
              task_st := [], priority_st := Medium, dueDate_st := None,
              category_st := [], isEditing := False, currentTaskKey := None,
              showCategoryInput := False\<rparr>)"

text \<open>\<^verbatim>\<open>deleteTask\<close> (lines 102-104).\<close>

definition deleteTask :: "string \<Rightarrow> app_state \<Rightarrow> app_state" where
  "deleteTask k s = s\<lparr>taskList := filter (\<lambda>t. key t \<noteq> k) (taskList s)\<rparr>"

text \<open>\<^verbatim>\<open>toggleTaskCompletion\<close> (lines 106-112).\<close>

definition toggleTaskCompletion :: "string \<Rightarrow> app_state \<Rightarrow> app_state" where
  "toggleTaskCompletion k s =
     s\<lparr>taskList :=
         map (\<lambda>taskItem.
                if key taskItem = k then taskItem\<lparr>completed := \<not> completed taskItem\<rparr>
                else taskItem)
             (taskList s)\<rparr>"

subsection \<open>Ordering handlers\<close>

text \<open>\<^verbatim>\<open>priorityOrder\<close> of line 117: \<^verbatim>\<open>{ high: 1, medium: 2, low: 3 }\<close>.\<close>

fun priorityOrder :: "priority_level \<Rightarrow> int" where
  "priorityOrder High = 1"
| "priorityOrder Medium = 2"
| "priorityOrder Low = 3"

text \<open>\<^verbatim>\<open>sortTasksByPriority\<close> (lines 116-119).\<close>

definition sortTasksByPriority :: "app_state \<Rightarrow> app_state" where
  "sortTasksByPriority s =
     s\<lparr>taskList :=
         array_sort (\<lambda>a b. priorityOrder (priority a) - priorityOrder (priority b))
           (taskList s)\<rparr>"

text \<open>\<^verbatim>\<open>a.dueDate || a.createdAt\<close>: a \<^verbatim>\<open>Date\<close> object is always truthy.\<close>

definition dueOrCreated :: "task \<Rightarrow> date" where
  "dueOrCreated a = (case dueDate a of None \<Rightarrow> createdAt a | Some d \<Rightarrow> d)"

text \<open>\<^verbatim>\<open>sortTasksByDate\<close> (lines 121-127).\<close>

definition sortTasksByDate :: "app_state \<Rightarrow> app_state" where
  "sortTasksByDate s =
     s\<lparr>taskList := array_sort (\<lambda>a b. dueOrCreated a - dueOrCreated b) (taskList s)\<rparr>"

text \<open>\<^verbatim>\<open>sortTasksByCategory\<close> (lines 129-135).\<close>

definition sortTasksByCategory :: "app_state \<Rightarrow> app_state" where
  "sortTasksByCategory s =
     s\<lparr>taskList :=
         array_sort (\<lambda>a b. localeCompare (orElse (category a) ''zzz'')
                                         (orElse (category b) ''zzz''))
           (taskList s)\<rparr>"

subsection \<open>The filtered list\<close>

text \<open>
  \<^verbatim>\<open>filteredTasks\<close> (lines 137-149) is recomputed from the state at every render.
  \<^verbatim>\<open>!task.category\<close> holds for \<^verbatim>\<open>undefined\<close> and for the empty string.
\<close>

definition matchesSearch :: "app_state \<Rightarrow> task \<Rightarrow> bool" where
  "matchesSearch s t = includes_str (toLowerCase (value_t t)) (toLowerCase (searchQuery s))"

definition matchesFilter :: "app_state \<Rightarrow> task \<Rightarrow> bool" where
  "matchesFilter s t =
     (filter_st s = All
      \<or> (filter_st s = TaskCompleted \<and> completed t)
      \<or> (filter_st s = Active \<and> \<not> completed t))"

definition matchesCategory :: "app_state \<Rightarrow> task \<Rightarrow> bool" where
  "matchesCategory s t =
     (selectedCategoryFilter s = ''all''
      \<or> (selectedCategoryFilter s = ''uncategorized''
          \<and> (category t = None \<or> category t = Some []))
      \<or> category t = Some (selectedCategoryFilter s))"

definition filteredTasks :: "app_state \<Rightarrow> task list" where
  "filteredTasks s =
     filter (\<lambda>t. matchesSearch s t \<and> matchesFilter s t \<and> matchesCategory s t)
       (taskList s)"

subsection \<open>Due date status\<close>









subsection \<open>Runs of the screen\<close>

text \<open>
  Everything the user can do to the state cells of the model: the handlers above and the
  setters that the inputs and buttons call directly (lines 206-411).
\<close>

datatype event =
    AddTask string date
  | EditTask string
  | UpdateTask
  | DeleteTask string
  | ToggleTaskCompletion string
  | SortTasksByPriority
  | SortTasksByDate
  | SortTasksByCategory
  | SetTask string
  | SetPriority priority_level
  | SetSearchQuery string
  | SetFilter completion_filter
  | SetDueDate "date option"
  | SetCategory string
  | SetShowCategoryInput bool
  | SetSelectedCategoryFilter string

fun handle :: "event \<Rightarrow> app_state \<Rightarrow> app_state" where
  "handle (AddTask rnd now) s = addTask rnd now s"
| "handle (EditTask k) s = editTask k s"
| "handle UpdateTask s = updateTask s"
| "handle (DeleteTask k) s = deleteTask k s"
| "handle (ToggleTaskCompletion k) s = toggleTaskCompletion k s"
| "handle SortTasksByPriority s = sortTasksByPriority s"
| "handle SortTasksByDate s = sortTasksByDate s"
| "handle SortTasksByCategory s = sortTasksByCategory s"
| "handle (SetTask x) s = s\<lparr>task_st := x\<rparr>"
| "handle (SetPriority p) s = s\<lparr>priority_st := p\<rparr>"
| "handle (SetSearchQuery q) s = s\<lparr>searchQuery := q\<rparr>"
| "handle (SetFilter f) s = s\<lparr>filter_st := f\<rparr>"
| "handle (SetDueDate d) s = s\<lparr>dueDate_st := d\<rparr>"
| "handle (SetCategory c) s = s\<lparr>category_st := c\<rparr>"
| "handle (SetShowCategoryInput b) s = s\<lparr>showCategoryInput := b\<rparr>"
| "handle (SetSelectedCategoryFilter c) s = s\<lparr>selectedCategoryFilter := c\<rparr>"

text \<open>The state after a run of events, starting from the state of the first render.\<close>

fun run :: "event list \<Rightarrow> app_state \<Rightarrow> app_state" where
  "run [] s = s"
| "run (e # es) s = run es (handle e s)"

text \<open>What the records of a state must satisfy by the data model: the category.\<close>

definition category_ok :: "task \<Rightarrow> bool" where
  "category_ok t =
     (case category t of
        None \<Rightarrow> True
      | Some c \<Rightarrow> c \<noteq> [] \<and> \<not> isWhiteSpace (hd c) \<and> \<not> isWhiteSpace (last c))"

definition categories_ok :: "app_state \<Rightarrow> bool" where
  "categories_ok s = (\<forall>t\<in>set (taskList s). category_ok t)"

text \<open>Example states and records for the closed statements below.\<close>

definition mkTask ::
  "string \<Rightarrow> string \<Rightarrow> priority_level \<Rightarrow> date option \<Rightarrow> string option \<Rightarrow> task" where
  "mkTask k v p d c =
     \<lparr>key = k, value_t = v, completed = False, createdAt = 0, priority = p,
      dueDate = d, category = c\<rparr>"

definition withTasks :: "task list \<Rightarrow> app_state" where
  "withTasks ts = initial_state\<lparr>taskList := ts\<rparr>"

text \<open>
  Two records, with the form filled in and the second record under edit: the text cell is
  \<open>c\<close>, the category cell is \<open>y\<close> between two blanks, priority and due date are the
  defaults.
\<close>

definition editing_second :: app_state where
  "editing_second =
     (withTasks [mkTask ''1'' ''a'' Low None None,
                 mkTask ''2'' ''b'' High (Some 5) (Some ''x'')])
       \<lparr>task_st := ''c'', category_st := '' y '', currentTaskKey := Some ''2'',
        isEditing := True\<rparr>"

section \<open>Properties\<close>

subsection \<open>Creating a task\<close>

text \<open>
  C7. When the text cell is empty or holds white space only, \<open>addTask\<close> changes nothing:
  the whole state, and so the task sequence and its length, is the one before the call.
  The handler has no failure branch, so nothing is raised.
\<close>

theorem addTask_blank_no_mutation:
  "trim (task_st s) = [] \<Longrightarrow>
     addTask rnd now s = s
     \<and> taskList (addTask rnd now s) = taskList s
     \<and> length (taskList (addTask rnd now s)) = length (taskList s)"
  by (simp add: addTask_def)

theorem addTask_blank_no_mutation_witness:
  "trim (task_st (editing_second\<lparr>task_st := [CHR '' '', CHR 0x09]\<rparr>)) = []
   \<and> addTask ''0.5'' 0 (editing_second\<lparr>task_st := [CHR '' '', CHR 0x09]\<rparr>)
       = editing_second\<lparr>task_st := [CHR '' '', CHR 0x09]\<rparr>
   \<and> length (taskList (addTask ''0.5'' 0 (editing_second\<lparr>task_st := [CHR '' '', CHR 0x09]\<rparr>)))
       = 2"
  using addTask_blank_no_mutation
    [of "editing_second\<lparr>task_st := [CHR '' '', CHR 0x09]\<rparr>" "''0.5''" 0]
  by (simp add: trim_def isWhiteSpace_def editing_second_def withTasks_def)

text \<open>
  C3, as the code has it. When the text cell is not blank, \<open>addTask\<close> appends exactly one
  record at the end of the sequence, and the text of that record is the text cell as it
  was typed: \<open>trim\<close> is used for the blank test only, the stored text keeps its leading
  and trailing white space.
\<close>

theorem addTask_appends_text_as_typed:
  "trim (task_st s) \<noteq> [] \<Longrightarrow>
     taskList (addTask rnd now s) =
       taskList s @
         [\<lparr>key = rnd, value_t = task_st s, completed = False, createdAt = now,
           priority = priority_st s, dueDate = dueDate_st s,
           category = orUndefined (trim (category_st s))\<rparr>]
     \<and> length (taskList (addTask rnd now s)) = Suc (length (taskList s))
     \<and> value_t (last (taskList (addTask rnd now s))) = task_st s"
  by (simp add: addTask_def)

theorem addTask_appends_text_as_typed_witness:
  "trim (task_st (initial_state\<lparr>task_st := '' a ''\<rparr>)) \<noteq> []
   \<and> length (taskList (addTask ''0.5'' 0 (initial_state\<lparr>task_st := '' a ''\<rparr>))) = 1
   \<and> value_t (last (taskList (addTask ''0.5'' 0 (initial_state\<lparr>task_st := '' a ''\<rparr>))))
       = '' a ''"
  using addTask_appends_text_as_typed [of "initial_state\<lparr>task_st := '' a ''\<rparr>" "''0.5''" 0]
  by (simp add: trim_def isWhiteSpace_def initial_state_def)

text \<open>
  The text \<open>a\<close> between two blanks is not blank, and the record created from it holds the
  three characters, not the trimmed text \<open>a\<close>.
\<close>

theorem addTask_stores_untrimmed_text:
  "trim '' a '' \<noteq> []
   \<and> value_t (last (taskList (addTask ''0.5'' 0 (initial_state\<lparr>task_st := '' a ''\<rparr>))))
       \<noteq> trim '' a ''"
  by (simp add: addTask_def trim_def isWhiteSpace_def initial_state_def)

subsection \<open>The filtered list\<close>

lemma includes_str_empty: "includes_str x []"
  by (induction x) simp_all

text \<open>
  C5. With an empty search text, the completion filter \<open>all\<close> and the category filter
  \<open>all\<close>, the filtered list is the task sequence itself, whatever the sequence is.
\<close>

theorem filteredTasks_identity:
  "filteredTasks (s\<lparr>searchQuery := [], filter_st := All, selectedCategoryFilter := ''all''\<rparr>)
     = taskList s"
  by (simp add: filteredTasks_def matchesSearch_def matchesFilter_def matchesCategory_def
      toLowerCase_def includes_str_empty)

subsection \<open>Ids that are not in the store\<close>

lemma filter_key_absent: "k \<notin> key ` set ts \<Longrightarrow> filter (\<lambda>t. key t \<noteq> k) ts = ts"
  by (induction ts) auto

lemma map_key_absent:
  "k \<notin> key ` set ts \<Longrightarrow> map (\<lambda>t. if key t = k then f t else t) ts = ts"
  by (induction ts) auto

lemma map_after_delete:
  "map (\<lambda>t. if key t = k then f t else t) (filter (\<lambda>t. key t \<noteq> k) ts)
     = filter (\<lambda>t. key t \<noteq> k) ts"
  by (induction ts) auto

text \<open>
  C10. When no record of the store has the id \<open>k\<close>, deleting \<open>k\<close>, toggling \<open>k\<close> and
  updating with \<open>k\<close> as the id under edit all leave the task sequence exactly as it was.
\<close>

theorem absent_id_leaves_sequence:
  "k \<notin> key ` set (taskList s) \<Longrightarrow>
     taskList (deleteTask k s) = taskList s
     \<and> taskList (toggleTaskCompletion k s) = taskList s
     \<and> taskList (updateTask (s\<lparr>currentTaskKey := Some k\<rparr>)) = taskList s"
  by (simp add: deleteTask_def toggleTaskCompletion_def updateTask_def
      filter_key_absent map_key_absent)

theorem absent_id_leaves_sequence_witness:
  "''9'' \<notin> key ` set (taskList editing_second)
   \<and> taskList (deleteTask ''9'' editing_second) = taskList editing_second
   \<and> taskList (toggleTaskCompletion ''9'' editing_second) = taskList editing_second
   \<and> taskList (updateTask (editing_second\<lparr>currentTaskKey := Some ''9''\<rparr>))
       = taskList editing_second"
  using absent_id_leaves_sequence [of "''9''" editing_second]
  by (simp add: editing_second_def withTasks_def mkTask_def)

text \<open>
  C1, as the code has it. The handlers return no value and have no result for a missing
  id: after \<open>deleteTask k\<close>, toggling \<open>k\<close> or deleting \<open>k\<close> again gives back the same
  state, and updating with \<open>k\<close> under edit leaves the task sequence as the deletion left
  it. Nothing is signalled; the call ends like a successful one.
\<close>

theorem after_delete_silent_noop:
  "toggleTaskCompletion k (deleteTask k s) = deleteTask k s
   \<and> deleteTask k (deleteTask k s) = deleteTask k s
   \<and> taskList (updateTask (deleteTask k (s\<lparr>currentTaskKey := Some k\<rparr>)))
       = taskList (deleteTask k s)"
  by (simp add: deleteTask_def toggleTaskCompletion_def updateTask_def map_after_delete)

text \<open>
  The state after a call is all a caller gets, and it does not tell a missing id from a
  present one. With one record of id \<open>1\<close> in the store, id \<open>2\<close> is missing; updating
  with \<open>2\<close> under edit gives the same state as updating with \<open>1\<close> under edit and the
  record's own values in the form; deleting \<open>2\<close> from the empty store gives the same state
  as deleting \<open>1\<close> from the store that holds it; toggling \<open>2\<close> gives the same state as
  toggling \<open>1\<close> on the record not yet completed.
\<close>

theorem not_found_indistinguishable:
  "''2'' \<notin> key ` set [mkTask ''1'' ''a'' Medium None None]
   \<and> ''1'' \<in> key ` set [mkTask ''1'' ''a'' Medium None None]
   \<and> updateTask ((withTasks [mkTask ''1'' ''a'' Medium None None])
        \<lparr>task_st := ''a'', currentTaskKey := Some ''2''\<rparr>)
     = updateTask ((withTasks [mkTask ''1'' ''a'' Medium None None])
        \<lparr>task_st := ''a'', currentTaskKey := Some ''1''\<rparr>)
   \<and> deleteTask ''2'' (withTasks [])
     = deleteTask ''1'' (withTasks [mkTask ''1'' ''a'' Medium None None])
   \<and> toggleTaskCompletion ''2''
        (withTasks [(mkTask ''1'' ''a'' Medium None None)\<lparr>completed := True\<rparr>])
     = toggleTaskCompletion ''1'' (withTasks [mkTask ''1'' ''a'' Medium None None])"
  by (simp add: updateTask_def deleteTask_def toggleTaskCompletion_def withTasks_def
      mkTask_def initial_state_def orUndefined_def trim_def)

subsection \<open>Updating a task\<close>

text \<open>
  C6. With the id \<open>k\<close> under edit, \<open>updateTask\<close> keeps the length of the sequence and,
  position by position, the ids, creation times and completion flags. A record with id
  \<open>k\<close> gets the text, priority, due date and category of the form and nothing else
  changes in it; every other record is the record that was there.
\<close>

theorem updateTask_frame:
  "currentTaskKey s = Some k \<Longrightarrow> k \<noteq> [] \<Longrightarrow>
     length (taskList (updateTask s)) = length (taskList s)
     \<and> map key (taskList (updateTask s)) = map key (taskList s)
     \<and> map createdAt (taskList (updateTask s)) = map createdAt (taskList s)
     \<and> map completed (taskList (updateTask s)) = map completed (taskList s)
     \<and> (\<forall>i < length (taskList s).
          taskList (updateTask s) ! i =
            (if key (taskList s ! i) = k
             then (taskList s ! i)\<lparr>value_t := task_st s, priority := priority_st s,
                    dueDate := dueDate_st s,
                    category := orUndefined (trim (category_st s))\<rparr>
             else taskList s ! i))"
  by (simp add: updateTask_def comp_def)

theorem updateTask_frame_witness:
  "currentTaskKey editing_second = Some ''2'' \<and> ''2'' \<noteq> []
   \<and> taskList (updateTask editing_second) ! 0 = mkTask ''1'' ''a'' Low None None
   \<and> taskList (updateTask editing_second) ! 1 = mkTask ''2'' ''c'' Medium None (Some ''y'')"
proof -
  have h1: "currentTaskKey editing_second = Some ''2''"
    by (simp add: editing_second_def)
  have h2: "''2'' \<noteq> []"
    by simp
  note fr = updateTask_frame [OF h1 h2, THEN conjunct2, THEN conjunct2, THEN conjunct2,
      THEN conjunct2, rule_format]
  have "taskList (updateTask editing_second) ! 0 = mkTask ''1'' ''a'' Low None None"
    using fr [of 0] by (simp add: editing_second_def withTasks_def mkTask_def)
  moreover have "taskList (updateTask editing_second) ! 1
      = mkTask ''2'' ''c'' Medium None (Some ''y'')"
    using fr [of 1]
    by (simp add: editing_second_def withTasks_def mkTask_def initial_state_def
        orUndefined_def trim_def isWhiteSpace_def)
  ultimately show ?thesis using h1 by simp
qed

subsection \<open>Stored categories\<close>

lemma last_dropWhile_keep: "dropWhile P xs \<noteq> [] \<Longrightarrow> last (dropWhile P xs) = last xs"
  by (induction xs) (auto split: if_splits)

lemma trim_ends:
  assumes "trim s \<noteq> []"
  shows "\<not> isWhiteSpace (hd (trim s)) \<and> \<not> isWhiteSpace (last (trim s))"
proof -
  let ?zs = "dropWhile isWhiteSpace s"
  let ?ys = "dropWhile isWhiteSpace (rev ?zs)"
  have ys: "?ys \<noteq> []" using assms by (simp add: trim_def)
  have zs: "?zs \<noteq> []"
  proof
    assume "?zs = []"
    then have "?ys = []" by (simp only: rev.simps dropWhile.simps)
    with ys show False by simp
  qed
  have "last (trim s) = hd ?ys" using ys by (simp add: trim_def last_rev)
  moreover have "\<not> isWhiteSpace (hd ?ys)" using ys by (rule hd_dropWhile)
  moreover have "hd (trim s) = last ?ys" using ys by (simp add: trim_def hd_rev)
  moreover have "last ?ys = last (rev ?zs)" using ys by (rule last_dropWhile_keep)
  moreover have "last (rev ?zs) = hd ?zs" using zs by (simp add: last_rev)
  moreover have "\<not> isWhiteSpace (hd ?zs)" using zs by (rule hd_dropWhile)
  ultimately show ?thesis by simp
qed

lemma category_ok_stored: "category_ok (t\<lparr>category := orUndefined (trim c)\<rparr>)"
  using trim_ends [of c] by (simp add: category_ok_def orUndefined_def)

lemma category_ok_new:
  "category_ok \<lparr>key = k, value_t = v, completed = b, createdAt = n, priority = p,
      dueDate = d, category = orUndefined (trim c)\<rparr>"
  using trim_ends [of c] by (simp add: category_ok_def orUndefined_def)

lemma category_ok_toggled: "category_ok (t\<lparr>completed := b\<rparr>) = category_ok t"
  by (simp add: category_ok_def)

lemma set_insert_cmp: "set (insert_cmp cmp x ys) = insert x (set ys)"
  by (induction ys) auto

lemma set_array_sort: "set (array_sort cmp xs) = set xs"
  by (induction xs) (simp_all add: set_insert_cmp)

lemma addTask_ok: "categories_ok s \<Longrightarrow> categories_ok (addTask rnd now s)"
  by (auto simp: categories_ok_def addTask_def category_ok_new)

lemma editTask_ok: "categories_ok s \<Longrightarrow> categories_ok (editTask k s)"
  by (simp add: categories_ok_def editTask_def split: option.splits)

lemma updateTask_ok: "categories_ok s \<Longrightarrow> categories_ok (updateTask s)"
  by (auto simp: categories_ok_def updateTask_def category_ok_stored split: option.splits)

lemma deleteTask_ok: "categories_ok s \<Longrightarrow> categories_ok (deleteTask k s)"
  by (simp add: categories_ok_def deleteTask_def)

lemma toggleTaskCompletion_ok:
  "categories_ok s \<Longrightarrow> categories_ok (toggleTaskCompletion k s)"
  by (auto simp: categories_ok_def toggleTaskCompletion_def category_ok_toggled)

lemma sorts_ok:
  "categories_ok s \<Longrightarrow> categories_ok (sortTasksByPriority s)"
  "categories_ok s \<Longrightarrow> categories_ok (sortTasksByDate s)"
  "categories_ok s \<Longrightarrow> categories_ok (sortTasksByCategory s)"
  by (simp_all add: categories_ok_def sortTasksByPriority_def sortTasksByDate_def
      sortTasksByCategory_def set_array_sort)

lemma handle_ok: "categories_ok s \<Longrightarrow> categories_ok (handle e s)"
proof (cases e)
  case (AddTask rnd now)
  then show "categories_ok s \<Longrightarrow> ?thesis" by (simp add: addTask_ok)
next
  case (EditTask k)
  then show "categories_ok s \<Longrightarrow> ?thesis" by (simp add: editTask_ok)
next
  case UpdateTask
  then show "categories_ok s \<Longrightarrow> ?thesis" by (simp add: updateTask_ok)
next
  case (DeleteTask k)
  then show "categories_ok s \<Longrightarrow> ?thesis" by (simp add: deleteTask_ok)
next
  case (ToggleTaskCompletion k)
  then show "categories_ok s \<Longrightarrow> ?thesis" by (simp add: toggleTaskCompletion_ok)
next
  case SortTasksByPriority
  then show "categories_ok s \<Longrightarrow> ?thesis" by (simp add: sorts_ok)
next
  case SortTasksByDate
  then show "categories_ok s \<Longrightarrow> ?thesis" by (simp add: sorts_ok)
next
  case SortTasksByCategory
  then show "categories_ok s \<Longrightarrow> ?thesis" by (simp add: sorts_ok)
qed (simp_all add: categories_ok_def)

lemma run_ok: "categories_ok s \<Longrightarrow> categories_ok (run es s)"
  by (induction es arbitrary: s) (simp_all add: handle_ok)

lemma initial_ok: "categories_ok initial_state"
  by (simp add: categories_ok_def initial_state_def)

lemma updateTask_category:
  assumes ck: "currentTaskKey s = Some k" and k: "k \<noteq> []"
    and t: "t \<in> set (taskList (updateTask s))" and kt: "key t = k"
  shows "category t = orUndefined (trim (category_st s))"
proof -
  let ?upd = "\<lambda>taskItem. if key taskItem = k
      then taskItem\<lparr>value_t := task_st s, priority := priority_st s,
             dueDate := dueDate_st s, category := orUndefined (trim (category_st s))\<rparr>
      else taskItem"
  from ck k have "taskList (updateTask s) = map ?upd (taskList s)"
    by (simp add: updateTask_def)
  with t have "t \<in> ?upd ` set (taskList s)"
    by (simp only: set_map)
  then obtain u where u: "t = ?upd u"
    by blast
  show ?thesis
  proof (cases "key u = k")
    case True
    with u show ?thesis by simp
  next
    case False
    with u kt show ?thesis by simp
  qed
qed

text \<open>
  C9. In every state that a run of events reaches from the first render, the category of
  every stored record is absent, or a non-empty string that neither starts nor ends with
  white space. Every event keeps this property of the store. A record created by
  \<open>addTask\<close>, and a record rewritten by \<open>updateTask\<close>, holds the trimmed category cell,
  or no category when the trimmed cell is empty.
\<close>

theorem category_invariant:
  "categories_ok (run es initial_state)
   \<and> (categories_ok s \<longrightarrow> categories_ok (handle e s))
   \<and> (trim (task_st s) \<noteq> [] \<longrightarrow>
        category (last (taskList (addTask rnd now s)))
          = (if trim (category_st s) = [] then None else Some (trim (category_st s))))
   \<and> (currentTaskKey s = Some k \<longrightarrow> k \<noteq> [] \<longrightarrow>
        (\<forall>t\<in>set (taskList (updateTask s)).
           key t = k \<longrightarrow>
             category t
               = (if trim (category_st s) = [] then None else Some (trim (category_st s)))))"
proof -
  have "categories_ok (run es initial_state)"
    using initial_ok by (rule run_ok)
  moreover have "categories_ok s \<longrightarrow> categories_ok (handle e s)"
    by (simp add: handle_ok)
  moreover have "trim (task_st s) \<noteq> [] \<longrightarrow>
        category (last (taskList (addTask rnd now s)))
          = (if trim (category_st s) = [] then None else Some (trim (category_st s)))"
    by (simp add: addTask_def orUndefined_def)
  moreover have "currentTaskKey s = Some k \<longrightarrow> k \<noteq> [] \<longrightarrow>
        (\<forall>t\<in>set (taskList (updateTask s)).
           key t = k \<longrightarrow>
             category t
               = (if trim (category_st s) = [] then None else Some (trim (category_st s))))"
    using updateTask_category [of s k] by (simp add: orUndefined_def)
  ultimately show ?thesis by blast
qed

theorem category_invariant_witness:
  "categories_ok initial_state
   \<and> trim (task_st (run [SetTask ''Buy milk'', SetCategory ''  Home ''] initial_state)) \<noteq> []
   \<and> map category
        (taskList (run [SetTask ''Buy milk'', SetCategory ''  Home '', AddTask ''0.1'' 7,
                        SetTask ''Call'', SetCategory ''   '', AddTask ''0.2'' 8]
                     initial_state))
       = [Some ''Home'', None]
   \<and> categories_ok
        (run [SetTask ''Buy milk'', SetCategory ''  Home '', AddTask ''0.1'' 7,
              SetTask ''Call'', SetCategory ''   '', AddTask ''0.2'' 8]
           initial_state)
   \<and> currentTaskKey editing_second = Some ''2''
   \<and> map category (taskList (updateTask editing_second)) = [None, Some ''y'']"
proof -
  have "categories_ok
        (run [SetTask ''Buy milk'', SetCategory ''  Home '', AddTask ''0.1'' 7,
              SetTask ''Call'', SetCategory ''   '', AddTask ''0.2'' 8]
           initial_state)"
    using category_invariant
      [of "[SetTask ''Buy milk'', SetCategory ''  Home '', AddTask ''0.1'' 7,
            SetTask ''Call'', SetCategory ''   '', AddTask ''0.2'' 8]"]
    by blast
  then show ?thesis
    by (simp add: initial_state_def categories_ok_def addTask_def updateTask_def
        editing_second_def withTasks_def mkTask_def trim_def isWhiteSpace_def
        orUndefined_def)
qed

subsection \<open>Sorting by priority\<close>

lemma insert_cmp_skip:
  "\<forall>y\<in>set ys. 0 < cmp x y \<Longrightarrow> insert_cmp cmp x (ys @ zs) = ys @ insert_cmp cmp x zs"
  by (induction ys) auto

lemma insert_cmp_stop:
  "\<forall>z\<in>set zs. cmp x z \<le> 0 \<Longrightarrow> insert_cmp cmp x zs = x # zs"
  by (cases zs) auto

lemma priority_sorted_split:
  "array_sort (\<lambda>a b. priorityOrder (priority a) - priorityOrder (priority b)) ts =
     filter (\<lambda>t. priority t = High) ts @ filter (\<lambda>t. priority t = Medium) ts
       @ filter (\<lambda>t. priority t = Low) ts"
  (is "array_sort ?cmp ts = ?H ts @ ?M ts @ ?L ts")
proof (induction ts)
  case Nil
  show ?case by simp
next
  case (Cons x xs)
  show ?case
  proof (cases "priority x")
    case High
    have "\<forall>z\<in>set (?H xs @ ?M xs @ ?L xs). ?cmp x z \<le> 0"
      using High by auto
    then have "insert_cmp ?cmp x (?H xs @ ?M xs @ ?L xs) = x # ?H xs @ ?M xs @ ?L xs"
      by (rule insert_cmp_stop)
    with Cons High show ?thesis by simp
  next
    case Medium
    have skip: "insert_cmp ?cmp x (?H xs @ (?M xs @ ?L xs))
        = ?H xs @ insert_cmp ?cmp x (?M xs @ ?L xs)"
      by (rule insert_cmp_skip) (simp add: Medium)
    have "\<forall>z\<in>set (?M xs @ ?L xs). ?cmp x z \<le> 0"
      using Medium by auto
    then have "insert_cmp ?cmp x (?M xs @ ?L xs) = x # ?M xs @ ?L xs"
      by (rule insert_cmp_stop)
    with skip Cons Medium show ?thesis by simp
  next
    case Low
    have skip: "insert_cmp ?cmp x ((?H xs @ ?M xs) @ ?L xs)
        = (?H xs @ ?M xs) @ insert_cmp ?cmp x (?L xs)"
      by (rule insert_cmp_skip) (auto simp add: Low)
    have "\<forall>z\<in>set (?L xs). ?cmp x z \<le> 0"
      using Low by auto
    then have "insert_cmp ?cmp x (?L xs) = x # ?L xs"
      by (rule insert_cmp_stop)
    with skip Cons Low show ?thesis by simp
  qed
qed

text \<open>
  C8. After \<open>sortTasksByPriority\<close> the task sequence is the high-priority records of the
  old sequence in their old order, then the medium ones in their old order, then the low
  ones in their old order; no other cell of the state changes. For the records A (low),
  B (high), C (medium) in the order A, B, C the result is B, C, A.
\<close>

theorem sortTasksByPriority_stable:
  "taskList (sortTasksByPriority s) =
     filter (\<lambda>t. priority t = High) (taskList s)
       @ filter (\<lambda>t. priority t = Medium) (taskList s)
       @ filter (\<lambda>t. priority t = Low) (taskList s)
   \<and> sortTasksByPriority s = s\<lparr>taskList := taskList (sortTasksByPriority s)\<rparr>
   \<and> taskList (sortTasksByPriority
        (withTasks [mkTask ''A'' ''a'' Low (Some 604800000) None,
                    mkTask ''B'' ''b'' High (Some 0) None,
                    mkTask ''C'' ''c'' Medium None None]))
      = [mkTask ''B'' ''b'' High (Some 0) None,
         mkTask ''C'' ''c'' Medium None None,
         mkTask ''A'' ''a'' Low (Some 604800000) None]"
  by (simp add: sortTasksByPriority_def priority_sorted_split withTasks_def mkTask_def)

subsection \<open>Sorting by category\<close>

text \<open>
  C2 at the records A with category \<open>zzzz\<close> and B with no category, in the order A, B.
  \<open>sortTasksByCategory\<close> compares B as if its category were \<open>zzz\<close>, which sorts before
  \<open>zzzz\<close>, so the result is B, A: the record without a category comes before a record
  with one.
\<close>

theorem sortTasksByCategory_absent_before_zzzz:
  "taskList (sortTasksByCategory
      (withTasks [mkTask ''A'' ''a'' Medium None (Some ''zzzz''),
                  mkTask ''B'' ''b'' Medium None None]))
   = [mkTask ''B'' ''b'' Medium None None,
      mkTask ''A'' ''a'' Medium None (Some ''zzzz'')]"
  by (simp add: sortTasksByCategory_def withTasks_def mkTask_def orElse_def)

subsection \<open>Due date status\<close>










end
